theory Spec2Isabelle
  imports Complex_Main "HOL-Library.Stream"
begin

section \<open>Data model of \<open>src/JS/sparticle.js\<close>\<close>

text \<open>
  The functions modelled are the constructor, \<open>init\<close>, \<open>setup\<close>, \<open>reset\<close>, \<open>isOffCanvas\<close>,
  the getters that sample a lifecycle, \<open>updateAlpha\<close> with \<open>updateFade\<close> and
  \<open>updateTwinkle\<close>, and \<open>render\<close> with \<open>renderRotate\<close>.

  A JavaScript number is modelled as a real: the finite doubles, idealised. The source
  never tests for \<open>NaN\<close> or an infinity, and among the functions modelled the only
  places where finite inputs give a non-finite value are the two divisions of \<open>render\<close>,
  which the model of \<open>render\<close> treats case by case. A number used as a condition is
  false exactly when it is \<open>0\<close>.

  \<open>this.settings\<close>: the options the particle reads. Three option names clash with
  constants that exist already (\<open>rotate\<close> on lists) or with fields of the particle
  (\<open>rotation\<close>, \<open>shape\<close>); they carry the suffix \<open>_s\<close>. \<open>color\<close> and \<open>shape\<close> are
  \<open>None\<close> when the option is not an array (\<open>Array.isArray\<close> is false).
\<close>

record settings =
  minSize :: real
  maxSize :: real
  minAlpha :: real
  maxAlpha :: real
  alphaSpeed :: real
  alphaVariance :: real
  twinkle :: bool
  speed :: real
  parallax :: real
  direction :: real
  xVariance :: real
  yVariance :: real
  drift :: real
  rotate_s :: bool
  rotation_s :: real
  color :: "string list option"
  shape_s :: "string list option"
  composition :: string

text \<open>\<open>this.canvas\<close>: only its two dimensions are read; both are unsigned in the DOM.\<close>

record canvas =
  width :: nat
  height :: nat

text \<open>
  The particle's own fields. \<open>size\<close> is a constant of HOL, so the field is \<open>size_p\<close>.
  A choice of colour or shape is \<open>None\<close> where the source leaves it \<open>undefined\<close>;
  \<open>resettingTwinkle\<close> is never initialised by the source, and \<open>undefined\<close> is false.
\<close>

record sparticle =
  frame :: nat
  frameoffset :: real
  size_p :: real
  da :: real
  dx :: real
  dy :: real
  dd :: real
  dr :: real
  alpha :: real
  shape_p :: "string option"
  fillColor :: "string option"
  strokeColor :: "string option"
  px :: real
  py :: real
  rotation_p :: real
  resettingTwinkle :: bool

section \<open>The alpha state machine\<close>

text \<open>
  \<open>updateFade\<close> returns the new alpha and may negate \<open>this.da\<close>; the model returns the
  number together with the particle after that mutation. The bounds are tested on the
  value after the tick has been added.
\<close>

definition updateFade :: "settings \<Rightarrow> sparticle \<Rightarrow> real \<times> sparticle" where
  "updateFade st p =
     (let tick = (da p / 1000) * alphaSpeed st * 0.5;
          alpha1 = alpha p + tick;
          over = (da p > 0 \<and> alpha1 > maxAlpha st);
          under = (da p < 0 \<and> alpha1 < minAlpha st)
      in if over \<or> under
         then (if under then minAlpha st else maxAlpha st, p\<lparr>da := - da p\<rparr>)
         else (alpha1, p))"

text \<open>
  \<open>updateTwinkle\<close> computes \<open>over\<close> and \<open>under\<close> from \<open>this.alpha\<close> as it is on entry,
  before the tick is applied, and may set \<open>this.resettingTwinkle\<close>.
\<close>

definition updateTwinkle :: "settings \<Rightarrow> sparticle \<Rightarrow> real \<times> sparticle" where
  "updateTwinkle st p =
     (let alpha0 = alpha p;
          delta = \<bar>da p\<bar>;
          over = (alpha0 > maxAlpha st);
          under = (alpha0 < minAlpha st);
          tick = (delta / 1000) * alphaSpeed st * 0.5;
          alpha1 = (if resettingTwinkle p then alpha0 + 0.02 * alphaSpeed st
                    else alpha0 - tick)
      in if under then (minAlpha st, p\<lparr>resettingTwinkle := True\<rparr>)
         else if over then (maxAlpha st, p\<lparr>resettingTwinkle := False\<rparr>)
         else (alpha1, p))"

text \<open>
  \<open>updateAlpha\<close> stores the number its helper returns in \<open>this.alpha\<close>; the value it
  returns itself is the \<open>alpha\<close> of the resulting particle.
\<close>

definition updateAlpha :: "settings \<Rightarrow> sparticle \<Rightarrow> sparticle" where
  "updateAlpha st p =
     (if alphaSpeed st > 0
      then (if twinkle st
            then (case updateTwinkle st p of (a, q) \<Rightarrow> q\<lparr>alpha := a\<rparr>)
            else (case updateFade st p of (a, q) \<Rightarrow> q\<lparr>alpha := a\<rparr>))
      else p)"

section \<open>The helpers and the random source\<close>

text \<open>
  Modelled from the spec: \<open>helpers.js\<close>, from which the source imports \<open>random\<close>,
  \<open>randomArray\<close>, \<open>roll\<close>, \<open>round\<close>, \<open>radian\<close>, \<open>clamp\<close> and \<open>cartesian\<close>, is not among the
  sources. The spec lists them as "uniform random in range, random pick from a set,
  probability roll, polar-to-Cartesian conversion, clamping, rounding, angle-to-radian
  conversion". The random source is the stream of the numbers it hands out, each in
  \<open>[0, 1)\<close>; every random helper takes the next one. The names \<open>random\<close> and \<open>round\<close>
  exist in HOL and carry the suffix \<open>_h\<close>. \<open>cartesian\<close>, of which the spec fixes neither
  the axis an angle of \<open>0\<close> points along nor the orientation, is a parameter \<open>cart\<close> of
  the functions that call it.
\<close>

type_synonym rng = "real stream"

definition random_h :: "real \<Rightarrow> real \<Rightarrow> rng \<Rightarrow> real \<times> rng" where
  "random_h lo hi g = (lo + shd g * (hi - lo), stl g)"

definition roll :: "real \<Rightarrow> rng \<Rightarrow> bool \<times> rng" where
  "roll chance g = (shd g < chance, stl g)"

definition randomArray :: "'a list \<Rightarrow> rng \<Rightarrow> 'a option \<times> rng" where
  "randomArray xs g =
     (let i = nat \<lfloor>shd g * real (length xs)\<rfloor>
      in (if i < length xs then Some (xs ! i) else None, stl g))"

definition round_h :: "real \<Rightarrow> real" where
  "round_h x = of_int \<lfloor>x + 1 / 2\<rfloor>"

definition radian :: "real \<Rightarrow> real" where
  "radian angle = (angle * pi) / 180"

definition clamp :: "real \<Rightarrow> real \<Rightarrow> real \<Rightarrow> real" where
  "clamp v lo hi = max lo (min hi v)"

section \<open>Lifecycle: \<open>setup\<close>, \<open>init\<close>, \<open>reset\<close>\<close>

definition getColor :: "settings \<Rightarrow> rng \<Rightarrow> string option \<times> rng" where
  "getColor st g = (case color st of None \<Rightarrow> (None, g) | Some cs \<Rightarrow> randomArray cs g)"

text \<open>
  \<open>this.images\<close> is \<open>None\<close> when the parent has none (a falsy value); an array, empty or
  not, is truthy. \<open>shape[0]\<close> of an empty array is \<open>undefined\<close>, which is not \<open>"image"\<close>.
\<close>

definition getShapeOrImage :: "string list option \<Rightarrow> settings \<Rightarrow> rng \<Rightarrow> string option \<times> rng" where
  "getShapeOrImage imgs st g =
     (case shape_s st of
        None \<Rightarrow> (None, g)
      | Some sh \<Rightarrow>
          (case imgs of
             Some ims \<Rightarrow> if sh \<noteq> [] \<and> hd sh = ''image'' then randomArray ims g
                        else randomArray sh g
           | None \<Rightarrow> randomArray sh g))"

definition getDelta :: "settings \<Rightarrow> sparticle \<Rightarrow> real" where
  "getDelta st p =
     (let baseDelta = speed st * 0.1
      in if speed st \<noteq> 0 \<and> parallax st \<noteq> 0
         then baseDelta + (size_p p * parallax st) / 50
         else baseDelta)"

text \<open>\<open>this.settings.speed || 10\<close>: a speed of \<open>0\<close> is falsy and gives \<open>10\<close>.\<close>

definition getDeltaVariance :: "settings \<Rightarrow> real \<Rightarrow> rng \<Rightarrow> real \<times> rng" where
  "getDeltaVariance st v g =
     (let s = (if speed st \<noteq> 0 then speed st else 10)
      in if v > 0
         then (case random_h (- v) v g of (r, g1) \<Rightarrow> ((r * s) / 100, g1))
         else (0, g))"

definition getDeltaX :: "(real \<Rightarrow> real \<times> real) \<Rightarrow> settings \<Rightarrow> sparticle \<Rightarrow> rng \<Rightarrow> real \<times> rng" where
  "getDeltaX cart st p g =
     (let d = getDelta st p
      in case getDeltaVariance st (xVariance st) g of
           (dv, g1) \<Rightarrow> (fst (cart (direction st)) * d + dv, g1))"

definition getDeltaY :: "(real \<Rightarrow> real \<times> real) \<Rightarrow> settings \<Rightarrow> sparticle \<Rightarrow> rng \<Rightarrow> real \<times> rng" where
  "getDeltaY cart st p g =
     (let d = getDelta st p
      in case getDeltaVariance st (yVariance st) g of
           (dv, g1) \<Rightarrow> (snd (cart (direction st)) * d + dv, g1))"

definition getAlphaDelta :: "settings \<Rightarrow> rng \<Rightarrow> real \<times> rng" where
  "getAlphaDelta st g =
     (let variance = alphaVariance st
      in case random_h 1 (variance + 1) g of
           (a, g1) \<Rightarrow> (case roll (1 / 2) g1 of
                          (flip, g2) \<Rightarrow> (if flip then - a else a, g2)))"

definition getDriftDelta :: "settings \<Rightarrow> rng \<Rightarrow> real \<times> rng" where
  "getDriftDelta st g =
     (if drift st = 0 then (0, g)
      else random_h (drift st - drift st / 2) (drift st + drift st / 2) g)"

definition getRotationDelta :: "settings \<Rightarrow> rng \<Rightarrow> real \<times> rng" where
  "getRotationDelta st g =
     (if rotate_s st \<and> rotation_s st \<noteq> 0
      then (case random_h 0.5 1.5 g of
              (u, g1) \<Rightarrow> (let r = radian (u * rotation_s st)
                           in case roll (1 / 2) g1 of
                                (flip, g2) \<Rightarrow> (if flip then - r else r, g2)))
      else (0, g))"

text \<open>
  \<open>setup\<close> (a reserved word here, hence \<open>setup_p\<close>) assigns eight fields in the order
  of the source; \<open>getDeltaX\<close> and \<open>getDeltaY\<close> read \<open>this.size\<close>, so they see the size
  sampled two lines before.
\<close>

definition setup_p :: "(real \<Rightarrow> real \<times> real) \<Rightarrow> settings \<Rightarrow> sparticle \<Rightarrow> rng \<Rightarrow> sparticle \<times> rng" where
  "setup_p cart st p g =
     (case random_h 0 360 g of (fo, g1) \<Rightarrow>
      case random_h (minSize st) (maxSize st) g1 of (sz, g2) \<Rightarrow>
      let p1 = p\<lparr>frame := 0, frameoffset := round_h fo, size_p := round_h sz\<rparr>
      in case getAlphaDelta st g2 of (a, g3) \<Rightarrow>
         case getDeltaX cart st p1 g3 of (x, g4) \<Rightarrow>
         case getDeltaY cart st p1 g4 of (y, g5) \<Rightarrow>
         case getDriftDelta st g5 of (d, g6) \<Rightarrow>
         case getRotationDelta st g6 of (r, g7) \<Rightarrow>
           (p1\<lparr>da := a, dx := x, dy := y, dd := d, dr := r\<rparr>, g7))"

definition init :: "(real \<Rightarrow> real \<times> real) \<Rightarrow> settings \<Rightarrow> canvas \<Rightarrow> string list option \<Rightarrow>
    sparticle \<Rightarrow> rng \<Rightarrow> sparticle \<times> rng" where
  "init cart st cv imgs p g =
     (case setup_p cart st p g of (p1, g1) \<Rightarrow>
      case random_h (minAlpha st) (maxAlpha st) g1 of (a, g2) \<Rightarrow>
      case getShapeOrImage imgs st g2 of (sh, g3) \<Rightarrow>
      case getColor st g3 of (fc, g4) \<Rightarrow>
      case getColor st g4 of (sc, g5) \<Rightarrow>
      case random_h (- size_p p1 * 2) (real (width cv) + size_p p1) g5 of (x, g6) \<Rightarrow>
      case random_h (- size_p p1 * 2) (real (height cv) + size_p p1) g6 of (y, g7) \<Rightarrow>
      case (if rotate_s st
            then (case random_h 0 360 g7 of (r, g8) \<Rightarrow> (radian r, g8))
            else (0, g7)) of (rot, g9) \<Rightarrow>
        (p1\<lparr>alpha := a, shape_p := sh, fillColor := fc, strokeColor := sc,
            px := round_h x, py := round_h y, rotation_p := rot\<rparr>, g9))"

text \<open>\<open>reset\<close>: \<open>setup\<close> first, so both snaps use the size of the new lifecycle.\<close>

definition reset :: "(real \<Rightarrow> real \<times> real) \<Rightarrow> settings \<Rightarrow> canvas \<Rightarrow> sparticle \<Rightarrow> rng \<Rightarrow> sparticle \<times> rng" where
  "reset cart st cv p g =
     (case setup_p cart st p g of (p1, g1) \<Rightarrow>
      let p2 = (if py p1 < 0 then p1\<lparr>py := real (height cv) + size_p p1 * 2\<rparr>
                else if py p1 > real (height cv) then p1\<lparr>py := 0 - size_p p1 * 2\<rparr>
                else p1);
          p3 = (if px p2 < 0 then p2\<lparr>px := real (width cv) + size_p p2 * 2\<rparr>
                else if px p2 > real (width cv) then p2\<lparr>px := 0 - size_p p2 * 2\<rparr>
                else p2)
      in (p3, g1))"

definition isOffCanvas :: "canvas \<Rightarrow> sparticle \<Rightarrow> bool" where
  "isOffCanvas cv p =
     (let topleft = 0 - size_p p * 3;
          bottom = real (height cv) + size_p p * 3;
          right = real (width cv) + size_p p * 3
      in px p < topleft \<or> px p > right \<or> py p < topleft \<or> py p > bottom)"

section \<open>The constructor\<close>

text \<open>
  \<open>parent\<close> is the owning instance, of which the constructor reads \<open>canvas\<close>, \<open>images\<close>
  and \<open>settings\<close>; a missing argument (\<open>undefined\<close>, \<open>null\<close>) is \<open>None\<close>, and so is each of
  the three properties when the parent lacks it. An exception is a value of type
  \<open>error\<close>, on the left of a sum. The outcome of a construction that completes is the
  object returned and what was written to the console: \<open>this\<close> is \<open>None\<close> when the object
  was handed back without any field of a particle set.
\<close>

record parent =
  p_canvas :: "canvas option"
  p_images :: "string list option"
  p_settings :: "settings option"

datatype error = TypeError | InvalidStateError

record construction =
  this :: "sparticle option"
  warnings :: "string list"

text \<open>
  The object before \<open>init\<close> runs: \<open>init\<close> assigns every field but \<open>resettingTwinkle\<close>,
  so the values below are never read, except the flag, which reads as false.
\<close>

definition fresh :: sparticle where
  "fresh = \<lparr>frame = 0, frameoffset = 0, size_p = 0, da = 0, dx = 0, dy = 0, dd = 0, dr = 0,
     alpha = 0, shape_p = None, fillColor = None, strokeColor = None, px = 0, py = 0,
     rotation_p = 0, resettingTwinkle = False\<rparr>"

text \<open>
  With a parent, the constructor calls \<open>parent.canvas.getContext\<close> before \<open>init\<close>: a
  parent without a canvas raises \<open>TypeError\<close> there. \<open>init\<close> starts with \<open>setup\<close>, which reads
  \<open>minSize\<close> of \<open>this.settings\<close>: a parent without settings raises \<open>TypeError\<close> there.
  Without a parent the \<open>else\<close> branch warns, and the constructor returns \<open>this\<close>.
\<close>

definition Sparticle :: "(real \<Rightarrow> real \<times> real) \<Rightarrow> parent option \<Rightarrow> rng \<Rightarrow> error + construction \<times> rng" where
  "Sparticle cart par g =
     (case par of
        Some pa \<Rightarrow>
          (case p_canvas pa of
             None \<Rightarrow> Inl TypeError
           | Some cv \<Rightarrow>
               (case p_settings pa of
                  None \<Rightarrow> Inl TypeError
                | Some st \<Rightarrow>
                    (case init cart st cv (p_images pa) fresh g of
                       (p, g1) \<Rightarrow> Inr (\<lparr>this = Some p, warnings = []\<rparr>, g1))))
      | None \<Rightarrow>
          Inr (\<lparr>this = None, warnings = [''Invalid parameters given to Sparticle()'']\<rparr>, g))"

section \<open>Rendering\<close>

text \<open>
  Modelled from the spec: the drawing surface is the browser's, not this repository's.
  The spec gives it as the capabilities "setGlobalAlpha, setCompositeMode,
  applyAffineTransform, resetTransform, drawBitmapRegion" over a state that is "global
  to the surface". Here it is a record of the current transform (the six numbers
  \<open>a b c d e f\<close> of an affine matrix), the global alpha, the composite mode, and the
  list of the bitmaps drawn so far, each with the surface state it was drawn under.
  A transform call multiplies the current matrix on the right; a setter stores the value
  it is given (the configured composition is taken to be a mode the surface knows).
\<close>

type_synonym matrix = "real \<times> real \<times> real \<times> real \<times> real \<times> real"

record draw_call =
  image :: canvas
  source_rect :: "real \<times> real \<times> real \<times> real"
  dest_rect :: "real \<times> real \<times> real \<times> real"
  under_transform :: matrix
  under_alpha :: real
  under_composite :: string

record context2d =
  currentTransform :: matrix
  globalAlpha :: real
  globalCompositeOperation :: string
  drawn :: "draw_call list"

definition identity :: matrix where
  "identity = (1, 0, 0, 1, 0, 0)"

fun compose :: "matrix \<Rightarrow> matrix \<Rightarrow> matrix" where
  "compose (a, b, c, d, e, f) (a2, b2, c2, d2, e2, f2) =
     (a * a2 + c * b2, b * a2 + d * b2, a * c2 + c * d2, b * c2 + d * d2,
      a * e2 + c * f2 + e, b * e2 + d * f2 + f)"

definition transform :: "matrix \<Rightarrow> context2d \<Rightarrow> context2d" where
  "transform m c = c\<lparr>currentTransform := compose (currentTransform c) m\<rparr>"

definition translate :: "real \<Rightarrow> real \<Rightarrow> context2d \<Rightarrow> context2d" where
  "translate x y c = transform (1, 0, 0, 1, x, y) c"

definition rotate_c :: "real \<Rightarrow> context2d \<Rightarrow> context2d" where
  "rotate_c t c = transform (cos t, sin t, - sin t, cos t, 0, 0) c"

definition setTransform :: "matrix \<Rightarrow> context2d \<Rightarrow> context2d" where
  "setTransform m c = c\<lparr>currentTransform := m\<rparr>"

definition drawImage :: "canvas \<Rightarrow> real \<times> real \<times> real \<times> real \<Rightarrow> real \<times> real \<times> real \<times> real \<Rightarrow>
    context2d \<Rightarrow> context2d" where
  "drawImage img src dst c =
     c\<lparr>drawn := drawn c @ [\<lparr>image = img, source_rect = src, dest_rect = dst,
         under_transform = currentTransform c, under_alpha = globalAlpha c,
         under_composite = globalCompositeOperation c\<rparr>]\<rparr>"

definition renderRotate :: "settings \<Rightarrow> sparticle \<Rightarrow> context2d \<Rightarrow> context2d" where
  "renderRotate st p c =
     (if rotate_s st
      then (let centerX = px p + size_p p / 2;
                centerY = py p + size_p p / 2
            in translate (- centerX) (- centerY)
                 (rotate_c (rotation_p p) (translate centerX centerY c)))
      else c)"

text \<open>
  \<open>images[this.fillColor][this.shape]\<close>: the cache is a dictionary of dictionaries. A
  property key is a string, and \<open>undefined\<close> used as a key is the string \<open>"undefined"\<close>.
  Reading a property of \<open>undefined\<close> raises \<open>TypeError\<close>: so does a colour that the
  cache lacks, and so does reading \<open>width\<close> of a shape that its row lacks.
\<close>

definition key :: "string option \<Rightarrow> string" where
  "key k = (case k of None \<Rightarrow> ''undefined'' | Some s \<Rightarrow> s)"

text \<open>
  Where the source divides by zero, JavaScript gives an infinity or \<open>NaN\<close>, which a real
  is not, so both cases are written out. A bitmap with a dimension of \<open>0\<close> makes
  \<open>drawImage\<close> raise \<open>InvalidStateError\<close>. Otherwise \<open>scale\<close> is finite; when it is \<open>0\<close>
  (a particle of size \<open>0\<close>) the coordinates \<open>px / scale\<close> and \<open>py / scale\<close> are not
  finite, and \<open>drawImage\<close> paints nothing when an argument is not finite.
\<close>

definition render :: "(string \<rightharpoonup> (string \<rightharpoonup> canvas)) \<Rightarrow> settings \<Rightarrow> sparticle \<Rightarrow> context2d \<Rightarrow>
    error + context2d" where
  "render images st p c =
     (case images (key (fillColor p)) of
        None \<Rightarrow> Inl TypeError
      | Some row \<Rightarrow>
          (case row (key (shape_p p)) of
             None \<Rightarrow> Inl TypeError
           | Some offscreenCanvas \<Rightarrow>
               if width offscreenCanvas = 0 \<or> height offscreenCanvas = 0
               then Inl InvalidStateError
               else
                 (let canvasSize = real (width offscreenCanvas);
                      scale = size_p p / canvasSize;
                      x = px p / scale;
                      y = py p / scale;
                      c1 = renderRotate st p c;
                      c2 = c1\<lparr>globalAlpha := clamp (alpha p) 0 1\<rparr>;
                      c3 = transform (scale, 0, 0, scale, 0, 0) c2;
                      c4 = (if globalCompositeOperation c3 \<noteq> composition st
                            then c3\<lparr>globalCompositeOperation := composition st\<rparr>
                            else c3);
                      c5 = (if scale = 0 then c4
                            else drawImage offscreenCanvas (0, 0, canvasSize, canvasSize)
                                   (x, y, canvasSize, canvasSize) c4)
                  in Inr (setTransform (1, 0, 0, 1, 0, 0) c5))))"

section \<open>Concrete inputs\<close>

text \<open>
  Modelled from the spec: the polar-to-Cartesian conversion of an angle in degrees,
  measured from the vertical axis: the spec's rule for drift calls a direction near
  \<open>0\<close>, \<open>180\<close> or \<open>360\<close> "near-vertical movement" and one near \<open>90\<close> or \<open>270\<close>
  "near-horizontal movement". It stands for \<open>cart\<close> where a closed statement needs a
  concrete conversion: a direction of \<open>0\<close> is \<open>(0, -1)\<close>, one of \<open>90\<close> is \<open>(1, 0)\<close>.
\<close>

definition cartesian0 :: "real \<Rightarrow> real \<times> real" where
  "cartesian0 angle = (cos (radian (angle - 90)), sin (radian (angle - 90)))"

definition demo_settings :: settings where
  "demo_settings = \<lparr>minSize = 7, maxSize = 7, minAlpha = 1 / 2, maxAlpha = 1,
     alphaSpeed = 10, alphaVariance = 1, twinkle = True, speed = 0, parallax = 0,
     direction = 180, xVariance = 1, yVariance = 1, drift = 0, rotate_s = False,
     rotation_s = 0, color = Some [''red'', ''blue''],
     shape_s = Some [''circle'', ''star''], composition = ''lighter''\<rparr>"

text \<open>
  Settings whose sizes range from \<open>5\<close> to \<open>9\<close>, and a random source that hands out
  \<open>1/4\<close>, then \<open>3/4\<close>, then \<open>1/4\<close> for ever: the second number is the one \<open>setup\<close> turns
  into the size, \<open>round(5 + 3/4 \<times> 4) = 8\<close>.
\<close>

definition wide_settings :: settings where
  "wide_settings = demo_settings\<lparr>minSize := 5, maxSize := 9\<rparr>"

definition demo_draws :: rng where
  "demo_draws = 1 / 4 ## 3 / 4 ## sconst (1 / 4)"

definition demo_canvas :: canvas where
  "demo_canvas = \<lparr>width = 100, height = 50\<rparr>"

definition demo_particle :: sparticle where
  "demo_particle = \<lparr>frame = 12, frameoffset = 90, size_p = 3, da = 1, dx = 0, dy = 0,
     dd = 0, dr = 0, alpha = 1 / 2, shape_p = Some ''star'', fillColor = Some ''blue'',
     strokeColor = Some ''blue'', px = - 20, py = - 5, rotation_p = 0,
     resettingTwinkle = False\<rparr>"

definition demo_parent :: parent where
  "demo_parent = \<lparr>p_canvas = Some demo_canvas, p_images = None,
     p_settings = Some wide_settings\<rparr>"

definition demo_images :: "string \<rightharpoonup> (string \<rightharpoonup> canvas)" where
  "demo_images = [''blue'' \<mapsto> [''star'' \<mapsto> \<lparr>width = 6, height = 6\<rparr>]]"

definition demo_context :: context2d where
  "demo_context = \<lparr>currentTransform = identity, globalAlpha = 1,
     globalCompositeOperation = ''source-over'', drawn = []\<rparr>"

section \<open>Alpha bounds\<close>

text \<open>
  In fade mode one step keeps an alpha that is within the bounds within them: the tick
  has the sign of \<open>da\<close>, and the bound on that side is tested after the tick.
\<close>

lemma fade_in_range:
  assumes "minAlpha st \<le> alpha p" "alpha p \<le> maxAlpha st" "0 < alphaSpeed st" "\<not> twinkle st"
  shows "minAlpha st \<le> alpha (updateAlpha st p) \<and> alpha (updateAlpha st p) \<le> maxAlpha st"
proof -
  define t where "t = da p * alphaSpeed st"
  have sgn: "(0 < da p \<longrightarrow> 0 < t) \<and> (da p < 0 \<longrightarrow> t < 0) \<and> (da p = 0 \<longrightarrow> t = 0)"
    using assms(3) by (simp add: t_def mult_neg_pos)
  have a: "alpha (updateAlpha st p) =
     (if 0 < da p \<and> maxAlpha st < alpha p + t / 2000 then maxAlpha st
      else if da p < 0 \<and> alpha p + t / 2000 < minAlpha st then minAlpha st
      else alpha p + t / 2000)"
    using assms(3,4) by (simp add: updateAlpha_def updateFade_def Let_def t_def)
  show ?thesis
    unfolding a using sgn assms(1,2) by (cases "0 < da p"; cases "da p < 0"; simp; linarith)
qed

text \<open>
  C1. The claim: from an alpha within \<open>[minAlpha, maxAlpha]\<close>, with \<open>alphaSpeed > 0\<close>, one
  \<open>updateAlpha\<close> leaves alpha within the bounds, in twinkle mode as in fade mode. In
  twinkle mode the code tests the alpha it found on entry, not the one it returns: a
  particle at \<open>minAlpha = 1/2\<close> with \<open>da = 1\<close> and \<open>alphaSpeed = 10\<close>, not resetting, is
  left at \<open>99/200\<close>, below \<open>minAlpha\<close>, and is clamped one step later only.
\<close>

theorem updateAlpha_twinkle_below_minAlpha:
  "twinkle demo_settings \<and> 0 < alphaSpeed demo_settings \<and>
   minAlpha demo_settings \<le> alpha demo_particle \<and>
   alpha demo_particle \<le> maxAlpha demo_settings \<and>
   alpha (updateAlpha demo_settings demo_particle) = 99 / 200 \<and>
   alpha (updateAlpha demo_settings demo_particle) < minAlpha demo_settings"
  by (simp add: updateAlpha_def updateTwinkle_def demo_settings_def demo_particle_def Let_def)

text \<open>The same on the other side: a resetting particle at \<open>maxAlpha = 1\<close> is left at \<open>6/5\<close>.\<close>

lemma updateAlpha_twinkle_above_maxAlpha:
  "alpha (updateAlpha demo_settings (demo_particle\<lparr>alpha := 1, resettingTwinkle := True\<rparr>)) = 6 / 5 \<and>
   maxAlpha demo_settings = 1"
  by (simp add: updateAlpha_def updateTwinkle_def demo_settings_def demo_particle_def Let_def)

section \<open>The twinkle turnaround\<close>

text \<open>One twinkle step, branch by branch.\<close>

lemma twinkle_step:
  assumes "twinkle st" "0 < alphaSpeed st"
  shows "updateAlpha st p =
     (if alpha p < minAlpha st then p\<lparr>resettingTwinkle := True, alpha := minAlpha st\<rparr>
      else if maxAlpha st < alpha p then p\<lparr>resettingTwinkle := False, alpha := maxAlpha st\<rparr>
      else if resettingTwinkle p then p\<lparr>alpha := alpha p + 0.02 * alphaSpeed st\<rparr>
      else p\<lparr>alpha := alpha p - (\<bar>da p\<bar> / 1000) * alphaSpeed st * 0.5\<rparr>)"
  using assms by (simp add: updateAlpha_def updateTwinkle_def Let_def)

text \<open>
  C3, as stated, fails: a step that leaves alpha at \<open>minAlpha\<close> need not be followed by
  a rise. With \<open>minAlpha = 0\<close>, \<open>alphaSpeed = 10\<close> and \<open>da = 1\<close> the tick is \<open>1/200\<close>; a
  decaying particle at \<open>1/200\<close> lands on \<open>0\<close> exactly, nothing was below the bound, the
  flag stays clear, and the next step takes alpha down to \<open>-1/200\<close>.
\<close>

theorem twinkle_exact_landing_counterexample:
  "twinkle (demo_settings\<lparr>minAlpha := 0\<rparr>) \<and> 0 < alphaSpeed (demo_settings\<lparr>minAlpha := 0\<rparr>) \<and>
   alpha (updateAlpha (demo_settings\<lparr>minAlpha := 0\<rparr>) (demo_particle\<lparr>alpha := 1 / 200\<rparr>))
     = minAlpha (demo_settings\<lparr>minAlpha := 0\<rparr>) \<and>
   alpha (updateAlpha (demo_settings\<lparr>minAlpha := 0\<rparr>)
           (updateAlpha (demo_settings\<lparr>minAlpha := 0\<rparr>) (demo_particle\<lparr>alpha := 1 / 200\<rparr>)))
     < alpha (updateAlpha (demo_settings\<lparr>minAlpha := 0\<rparr>) (demo_particle\<lparr>alpha := 1 / 200\<rparr>))"
  by (simp add: updateAlpha_def updateTwinkle_def demo_settings_def demo_particle_def Let_def)

text \<open>
  C3, amended: in twinkle mode with \<open>alphaSpeed > 0\<close> and \<open>minAlpha \<le> maxAlpha\<close>, a step
  that finds alpha below \<open>minAlpha\<close> leaves it at \<open>minAlpha\<close> with the flag set (the
  resetting sub-state), and the step after it strictly increases alpha; a step that
  finds alpha above \<open>maxAlpha\<close> leaves it at \<open>maxAlpha\<close> with the flag clear (the
  decaying sub-state), and, when \<open>da\<close> is not \<open>0\<close>, the step after it strictly decreases
  alpha; a step that finds alpha within the bounds, and so any step that lands on a
  bound without having found alpha past it, leaves the flag as it was.
\<close>

theorem twinkle_turnaround:
  assumes "twinkle st" and "0 < alphaSpeed st" and "minAlpha st \<le> maxAlpha st"
  shows "(alpha p < minAlpha st \<longrightarrow>
            alpha (updateAlpha st p) = minAlpha st \<and>
            resettingTwinkle (updateAlpha st p) \<and>
            alpha (updateAlpha st p) < alpha (updateAlpha st (updateAlpha st p))) \<and>
         (maxAlpha st < alpha p \<longrightarrow>
            alpha (updateAlpha st p) = maxAlpha st \<and>
            \<not> resettingTwinkle (updateAlpha st p) \<and>
            (da p \<noteq> 0 \<longrightarrow>
               alpha (updateAlpha st (updateAlpha st p)) < alpha (updateAlpha st p))) \<and>
         (minAlpha st \<le> alpha p \<and> alpha p \<le> maxAlpha st \<longrightarrow>
            resettingTwinkle (updateAlpha st p) = resettingTwinkle p)"
proof (intro conjI impI)
  assume lo: "alpha p < minAlpha st"
  then show "alpha (updateAlpha st p) = minAlpha st"
    by (simp add: twinkle_step [OF assms(1,2)])
  from lo show "resettingTwinkle (updateAlpha st p)"
    by (simp add: twinkle_step [OF assms(1,2)])
  from lo show "alpha (updateAlpha st p) < alpha (updateAlpha st (updateAlpha st p))"
    using assms(2,3) by (simp add: twinkle_step [OF assms(1,2)])
next
  assume hi: "maxAlpha st < alpha p"
  then have nlo: "\<not> alpha p < minAlpha st" using assms(3) by simp
  from hi nlo show "alpha (updateAlpha st p) = maxAlpha st"
    by (simp add: twinkle_step [OF assms(1,2)])
  from hi nlo show "\<not> resettingTwinkle (updateAlpha st p)"
    by (simp add: twinkle_step [OF assms(1,2)])
  assume nz: "da p \<noteq> 0"
  then have "0 < \<bar>da p\<bar> * alphaSpeed st" using assms(2) by simp
  with hi nlo show "alpha (updateAlpha st (updateAlpha st p)) < alpha (updateAlpha st p)"
    using assms(3) by (simp add: twinkle_step [OF assms(1,2)])
next
  assume "minAlpha st \<le> alpha p \<and> alpha p \<le> maxAlpha st"
  then show "resettingTwinkle (updateAlpha st p) = resettingTwinkle p"
    by (simp add: twinkle_step [OF assms(1,2)])
qed

text \<open>
  The theorem at three inputs: alpha \<open>1/4\<close> below \<open>minAlpha = 1/2\<close>; alpha \<open>3/2\<close> above
  \<open>maxAlpha = 1\<close>; and, with \<open>minAlpha = 0\<close>, the decaying particle at \<open>1/200\<close> that lands
  on \<open>0\<close> exactly and stays decaying.
\<close>

theorem twinkle_turnaround_witness:
  "twinkle demo_settings \<and> 0 < alphaSpeed demo_settings \<and>
   minAlpha demo_settings \<le> maxAlpha demo_settings \<and>
   alpha (demo_particle\<lparr>alpha := 1 / 4\<rparr>) < minAlpha demo_settings \<and>
   alpha (updateAlpha demo_settings (demo_particle\<lparr>alpha := 1 / 4\<rparr>)) = 1 / 2 \<and>
   resettingTwinkle (updateAlpha demo_settings (demo_particle\<lparr>alpha := 1 / 4\<rparr>)) \<and>
   alpha (updateAlpha demo_settings (updateAlpha demo_settings (demo_particle\<lparr>alpha := 1 / 4\<rparr>))) = 7 / 10 \<and>
   maxAlpha demo_settings < alpha (demo_particle\<lparr>alpha := 3 / 2, resettingTwinkle := True\<rparr>) \<and>
   da (demo_particle\<lparr>alpha := 3 / 2, resettingTwinkle := True\<rparr>) \<noteq> 0 \<and>
   alpha (updateAlpha demo_settings (demo_particle\<lparr>alpha := 3 / 2, resettingTwinkle := True\<rparr>)) = 1 \<and>
   \<not> resettingTwinkle
       (updateAlpha demo_settings (demo_particle\<lparr>alpha := 3 / 2, resettingTwinkle := True\<rparr>)) \<and>
   alpha (updateAlpha demo_settings
           (updateAlpha demo_settings (demo_particle\<lparr>alpha := 3 / 2, resettingTwinkle := True\<rparr>)))
     = 199 / 200 \<and>
   twinkle (demo_settings\<lparr>minAlpha := 0\<rparr>) \<and> 0 < alphaSpeed (demo_settings\<lparr>minAlpha := 0\<rparr>) \<and>
   minAlpha (demo_settings\<lparr>minAlpha := 0\<rparr>) \<le> maxAlpha (demo_settings\<lparr>minAlpha := 0\<rparr>) \<and>
   minAlpha (demo_settings\<lparr>minAlpha := 0\<rparr>) \<le> alpha (demo_particle\<lparr>alpha := 1 / 200\<rparr>) \<and>
   alpha (demo_particle\<lparr>alpha := 1 / 200\<rparr>) \<le> maxAlpha (demo_settings\<lparr>minAlpha := 0\<rparr>) \<and>
   alpha (updateAlpha (demo_settings\<lparr>minAlpha := 0\<rparr>) (demo_particle\<lparr>alpha := 1 / 200\<rparr>)) = 0 \<and>
   \<not> resettingTwinkle
       (updateAlpha (demo_settings\<lparr>minAlpha := 0\<rparr>) (demo_particle\<lparr>alpha := 1 / 200\<rparr>))"
proof -
  have h: "twinkle demo_settings" "0 < alphaSpeed demo_settings"
      "minAlpha demo_settings \<le> maxAlpha demo_settings"
    and k: "twinkle (demo_settings\<lparr>minAlpha := 0\<rparr>)" "0 < alphaSpeed (demo_settings\<lparr>minAlpha := 0\<rparr>)"
      "minAlpha (demo_settings\<lparr>minAlpha := 0\<rparr>) \<le> maxAlpha (demo_settings\<lparr>minAlpha := 0\<rparr>)"
    by (simp_all add: demo_settings_def)
  have e: "alpha (updateAlpha demo_settings (updateAlpha demo_settings (demo_particle\<lparr>alpha := 1 / 4\<rparr>))) = 7 / 10"
      "alpha (updateAlpha demo_settings
               (updateAlpha demo_settings (demo_particle\<lparr>alpha := 3 / 2, resettingTwinkle := True\<rparr>)))
         = 199 / 200"
      "alpha (updateAlpha (demo_settings\<lparr>minAlpha := 0\<rparr>) (demo_particle\<lparr>alpha := 1 / 200\<rparr>)) = 0"
    by (simp_all add: updateAlpha_def updateTwinkle_def demo_settings_def demo_particle_def Let_def)
  show ?thesis
    using h k e twinkle_turnaround [OF h, of "demo_particle\<lparr>alpha := 1 / 4\<rparr>"]
      twinkle_turnaround [OF h, of "demo_particle\<lparr>alpha := 3 / 2, resettingTwinkle := True\<rparr>"]
      twinkle_turnaround [OF k, of "demo_particle\<lparr>alpha := 1 / 200\<rparr>"]
    by (simp add: demo_settings_def demo_particle_def)
qed

section \<open>What a lifecycle event samples\<close>

text \<open>\<open>setup\<close> leaves the eight fields it does not assign as they were.\<close>

lemma setup_keeps:
  "alpha (fst (setup_p cart st p g)) = alpha p"
  "px (fst (setup_p cart st p g)) = px p"
  "py (fst (setup_p cart st p g)) = py p"
  "shape_p (fst (setup_p cart st p g)) = shape_p p"
  "fillColor (fst (setup_p cart st p g)) = fillColor p"
  "strokeColor (fst (setup_p cart st p g)) = strokeColor p"
  "rotation_p (fst (setup_p cart st p g)) = rotation_p p"
  "resettingTwinkle (fst (setup_p cart st p g)) = resettingTwinkle p"
  by (simp_all add: setup_p_def case_prod_beta Let_def)

lemma getDelta_size: "size_p p = size_p p' \<Longrightarrow> getDelta st p = getDelta st p'"
  by (simp add: getDelta_def Let_def)

lemma getDeltaX_size: "size_p p = size_p p' \<Longrightarrow> getDeltaX cart st p g = getDeltaX cart st p' g"
  by (simp add: getDeltaX_def getDelta_size [of p p'])

lemma getDeltaY_size: "size_p p = size_p p' \<Longrightarrow> getDeltaY cart st p g = getDeltaY cart st p' g"
  by (simp add: getDeltaY_def getDelta_size [of p p'])

text \<open>
  What \<open>setup\<close> assigns, and the random source it leaves, depend on the settings and on
  the random source only, not on the particle it is applied to.
\<close>

lemma setup_samples:
  "frame (fst (setup_p cart st p g)) = frame (fst (setup_p cart st p' g))"
  "frameoffset (fst (setup_p cart st p g)) = frameoffset (fst (setup_p cart st p' g))"
  "size_p (fst (setup_p cart st p g)) = size_p (fst (setup_p cart st p' g))"
  "da (fst (setup_p cart st p g)) = da (fst (setup_p cart st p' g))"
  "dx (fst (setup_p cart st p g)) = dx (fst (setup_p cart st p' g))"
  "dy (fst (setup_p cart st p g)) = dy (fst (setup_p cart st p' g))"
  "dd (fst (setup_p cart st p g)) = dd (fst (setup_p cart st p' g))"
  "dr (fst (setup_p cart st p g)) = dr (fst (setup_p cart st p' g))"
  "snd (setup_p cart st p g) = snd (setup_p cart st p' g)"
proof -
  let ?sz = "round_h (fst (random_h (minSize st) (maxSize st) (snd (random_h 0 360 g))))"
  let ?fo = "round_h (fst (random_h 0 360 g))"
  let ?q = "p\<lparr>frame := 0, frameoffset := ?fo, size_p := ?sz\<rparr>"
  let ?q' = "p'\<lparr>frame := 0, frameoffset := ?fo, size_p := ?sz\<rparr>"
  have x: "getDeltaX cart st ?q = getDeltaX cart st ?q'"
    by (rule ext, rule getDeltaX_size) simp
  have y: "getDeltaY cart st ?q = getDeltaY cart st ?q'"
    by (rule ext, rule getDeltaY_size) simp
  show "frame (fst (setup_p cart st p g)) = frame (fst (setup_p cart st p' g))"
    "frameoffset (fst (setup_p cart st p g)) = frameoffset (fst (setup_p cart st p' g))"
    "size_p (fst (setup_p cart st p g)) = size_p (fst (setup_p cart st p' g))"
    "da (fst (setup_p cart st p g)) = da (fst (setup_p cart st p' g))"
    "dx (fst (setup_p cart st p g)) = dx (fst (setup_p cart st p' g))"
    "dy (fst (setup_p cart st p g)) = dy (fst (setup_p cart st p' g))"
    "dd (fst (setup_p cart st p g)) = dd (fst (setup_p cart st p' g))"
    "dr (fst (setup_p cart st p g)) = dr (fst (setup_p cart st p' g))"
    "snd (setup_p cart st p g) = snd (setup_p cart st p' g)"
    by (simp_all add: setup_p_def case_prod_beta Let_def x y)
qed

text \<open>\<open>reset\<close> is \<open>setup\<close> followed by the two snaps, each decided by the old coordinate.\<close>

lemma reset_fields:
  "fst (reset cart st cv p g) =
     (fst (setup_p cart st p g))
       \<lparr>py := (if py p < 0 then real (height cv) + size_p (fst (setup_p cart st p g)) * 2
               else if py p > real (height cv) then 0 - size_p (fst (setup_p cart st p g)) * 2
               else py p),
        px := (if px p < 0 then real (width cv) + size_p (fst (setup_p cart st p g)) * 2
               else if px p > real (width cv) then 0 - size_p (fst (setup_p cart st p g)) * 2
               else px p)\<rparr>"
  "snd (reset cart st cv p g) = snd (setup_p cart st p g)"
  using setup_keeps(2,3) [of cart st p g]
  by (simp_all add: reset_def case_prod_beta Let_def)

lemma init_fields:
  "size_p (fst (init cart st cv imgs p g)) = size_p (fst (setup_p cart st p g))"
  "da (fst (init cart st cv imgs p g)) = da (fst (setup_p cart st p g))"
  "dx (fst (init cart st cv imgs p g)) = dx (fst (setup_p cart st p g))"
  "dy (fst (init cart st cv imgs p g)) = dy (fst (setup_p cart st p g))"
  "dd (fst (init cart st cv imgs p g)) = dd (fst (setup_p cart st p g))"
  "dr (fst (init cart st cv imgs p g)) = dr (fst (setup_p cart st p g))"
  "shape_p (fst (init cart st cv imgs p g)) =
     fst (getShapeOrImage imgs st (stl (snd (setup_p cart st p g))))"
  "fillColor (fst (init cart st cv imgs p g)) =
     fst (getColor st (snd (getShapeOrImage imgs st (stl (snd (setup_p cart st p g))))))"
  "strokeColor (fst (init cart st cv imgs p g)) =
     fst (getColor st (snd (getColor st
       (snd (getShapeOrImage imgs st (stl (snd (setup_p cart st p g))))))))"
  by (simp_all add: init_def case_prod_beta Let_def random_h_def)

text \<open>
  With every number the random source hands out being \<open>0\<close>, the demo settings give a
  new size of \<open>7\<close>, whatever the particle.
\<close>

lemma demo_setup_size: "size_p (fst (setup_p cart demo_settings p (sconst 0))) = 7"
  by (simp add: setup_p_def case_prod_beta Let_def random_h_def round_h_def demo_settings_def)

text \<open>What each getter samples, in the numbers the random source hands out.\<close>

lemma getDeltaVariance_value:
  "getDeltaVariance st v g =
     (if 0 < v then ((- v + shd g * (v - - v)) * (if speed st \<noteq> 0 then speed st else 10) / 100, stl g)
      else (0, g))"
  by (simp add: getDeltaVariance_def random_h_def Let_def)

lemma getDriftDelta_value:
  "getDriftDelta st g =
     (if drift st = 0 then (0, g)
      else (drift st - drift st / 2 +
            shd g * (drift st + drift st / 2 - (drift st - drift st / 2)), stl g))"
  by (simp add: getDriftDelta_def random_h_def)

lemma getRotationDelta_value:
  "getRotationDelta st g =
     (if rotate_s st \<and> rotation_s st \<noteq> 0
      then (if shd (stl g) < 1 / 2
            then - radian ((0.5 + shd g * (1.5 - 0.5)) * rotation_s st)
            else radian ((0.5 + shd g * (1.5 - 0.5)) * rotation_s st), stl (stl g))
      else (0, g))"
  by (simp add: getRotationDelta_def random_h_def roll_def Let_def)

text \<open>
  \<open>setup\<close> in closed form. The first number of the random source becomes the frame
  offset, the second the size; the five getters follow in the order of the source, each
  on what the one before it left of the random source.
\<close>

lemma setup_values:
  fixes cart st p g
  defines "sz \<equiv> round_h (fst (random_h (minSize st) (maxSize st) (stl g)))"
  defines "q \<equiv> p\<lparr>frame := 0, frameoffset := round_h (fst (random_h 0 360 g)), size_p := sz\<rparr>"
  defines "g3 \<equiv> snd (getAlphaDelta st (stl (stl g)))"
  defines "g4 \<equiv> snd (getDeltaX cart st q g3)"
  defines "g5 \<equiv> snd (getDeltaY cart st q g4)"
  defines "g6 \<equiv> snd (getDriftDelta st g5)"
  shows "setup_p cart st p g =
     (q\<lparr>da := fst (getAlphaDelta st (stl (stl g))), dx := fst (getDeltaX cart st q g3),
        dy := fst (getDeltaY cart st q g4), dd := fst (getDriftDelta st g5),
        dr := fst (getRotationDelta st g6)\<rparr>,
      snd (getRotationDelta st g6))"
  unfolding sz_def q_def g3_def g4_def g5_def g6_def
  by (simp add: setup_p_def case_prod_beta Let_def random_h_def)

text \<open>
  With the sizes from \<open>5\<close> to \<open>9\<close> and the numbers \<open>1/4, 3/4, 1/4, 1/4, \<dots>\<close>: the frame
  offset is \<open>90\<close>, the size \<open>8\<close>, the alpha delta \<open>-5/4\<close>, both velocity components
  \<open>-1/20\<close>, and the random source is left handing out \<open>1/4\<close>.
\<close>

lemma wide_setup:
  "setup_p cart wide_settings p demo_draws =
     (p\<lparr>frame := 0, frameoffset := 90, size_p := 8, da := - (5 / 4), dx := - (1 / 20),
        dy := - (1 / 20), dd := 0, dr := 0\<rparr>, sconst (1 / 4))"
  by (simp add: setup_p_def case_prod_beta Let_def random_h_def round_h_def roll_def
      getAlphaDelta_def getDeltaX_def getDeltaY_def getDelta_def getDeltaVariance_def
      getDriftDelta_def getRotationDelta_def wide_settings_def demo_settings_def demo_draws_def)

text \<open>
  C2, as stated, fails: a recycle samples a new size (here \<open>8\<close>, from \<open>3\<close>) and a new
  alpha delta (\<open>-5/4\<close>, from \<open>1\<close>), and keeps the colour and the shape the particle had
  (\<open>blue\<close>, \<open>star\<close>), although a sample taken from the random source at that point
  would have picked \<open>red\<close> and \<open>circle\<close>.
\<close>

theorem recycle_keeps_color_counterexample:
  "size_p demo_particle = 3 \<and> da demo_particle = 1 \<and>
   size_p (fst (reset cartesian0 wide_settings demo_canvas demo_particle demo_draws)) = 8 \<and>
   da (fst (reset cartesian0 wide_settings demo_canvas demo_particle demo_draws)) = - (5 / 4) \<and>
   fillColor (fst (reset cartesian0 wide_settings demo_canvas demo_particle demo_draws)) = Some ''blue'' \<and>
   shape_p (fst (reset cartesian0 wide_settings demo_canvas demo_particle demo_draws)) = Some ''star'' \<and>
   fst (getColor wide_settings
         (snd (reset cartesian0 wide_settings demo_canvas demo_particle demo_draws))) = Some ''red'' \<and>
   fst (getShapeOrImage None wide_settings
         (snd (reset cartesian0 wide_settings demo_canvas demo_particle demo_draws))) = Some ''circle''"
  by (simp add: reset_fields wide_setup)
    (simp add: demo_particle_def wide_settings_def demo_settings_def getColor_def
      getShapeOrImage_def randomArray_def)

text \<open>
  C2, amended: at creation and at every recycle the size, \<open>da\<close>, \<open>dx\<close>, \<open>dy\<close>, \<open>dd\<close> and
  \<open>dr\<close> are sampled together by the one operation \<open>setup\<close>: the size is
  \<open>round(random(minSize, maxSize))\<close> on the second number of the random source, and the
  alpha delta, the two velocity components, the drift delta and the rotation delta
  are what their getters give, in that order, each on what is left of the random
  source; the velocity reads the new size and nothing else of the particle (\<open>p'\<close> is
  any particle). The colour and shape choices are sampled at creation only, after
  \<open>setup\<close> and the draw for the initial alpha: the shape, then the fill colour, then the
  stroke colour. A recycle keeps all three.
\<close>

theorem lifecycle_resampling:
  "let sz = round_h (fst (random_h (minSize st) (maxSize st) (stl g)));
       q = p'\<lparr>size_p := sz\<rparr>;
       g2 = stl (stl g);
       g3 = snd (getAlphaDelta st g2);
       g4 = snd (getDeltaX cart st q g3);
       g5 = snd (getDeltaY cart st q g4);
       g6 = snd (getDriftDelta st g5);
       g7 = snd (getRotationDelta st g6);
       g8 = snd (getShapeOrImage imgs st (stl g7));
       r = fst (reset cart st cv p g);
       i = fst (init cart st cv imgs p g)
   in size_p r = sz \<and> da r = fst (getAlphaDelta st g2) \<and>
      dx r = fst (getDeltaX cart st q g3) \<and> dy r = fst (getDeltaY cart st q g4) \<and>
      dd r = fst (getDriftDelta st g5) \<and> dr r = fst (getRotationDelta st g6) \<and>
      snd (reset cart st cv p g) = g7 \<and>
      fillColor r = fillColor p \<and> strokeColor r = strokeColor p \<and> shape_p r = shape_p p \<and>
      size_p i = sz \<and> da i = fst (getAlphaDelta st g2) \<and>
      dx i = fst (getDeltaX cart st q g3) \<and> dy i = fst (getDeltaY cart st q g4) \<and>
      dd i = fst (getDriftDelta st g5) \<and> dr i = fst (getRotationDelta st g6) \<and>
      shape_p i = fst (getShapeOrImage imgs st (stl g7)) \<and>
      fillColor i = fst (getColor st g8) \<and>
      strokeColor i = fst (getColor st (snd (getColor st g8)))"
proof -
  have x: "getDeltaX cart st
             (p\<lparr>frame := 0, frameoffset := round_h (fst (random_h 0 360 g)), size_p := z\<rparr>) =
           getDeltaX cart st (p'\<lparr>size_p := z\<rparr>)" for z
    by (rule ext, rule getDeltaX_size) simp
  have y: "getDeltaY cart st
             (p\<lparr>frame := 0, frameoffset := round_h (fst (random_h 0 360 g)), size_p := z\<rparr>) =
           getDeltaY cart st (p'\<lparr>size_p := z\<rparr>)" for z
    by (rule ext, rule getDeltaY_size) simp
  show ?thesis
    by (simp add: Let_def reset_fields init_fields setup_values x y)
qed

section \<open>Where a recycle puts the particle\<close>

lemma demo_reset_size: "size_p (fst (reset cart demo_settings cv p (sconst 0))) = 7"
  by (simp add: reset_fields demo_setup_size)

lemma reset_size:
  "size_p (fst (reset cart st cv p g)) =
     round_h (fst (random_h (minSize st) (maxSize st) (stl g)))"
  by (simp add: reset_fields setup_values)




text \<open>
  C10. \<open>reset\<close> moves an axis whenever its coordinate is past the edge of the canvas
  itself, below \<open>0\<close> or above the width or height, and not only when it is past the
  margin of \<open>3 \<times> size\<close> that \<open>isOffCanvas\<close> tests. So when the particle is off the
  canvas on the left while \<open>py\<close> lies between \<open>- 3 \<times> size\<close> and \<open>0\<close>, both coordinates
  are moved, and \<open>py\<close> does not keep its value (the new size being at least \<open>0\<close>).
\<close>

theorem reset_axis_snaps:
  "(px p < 0 \<longrightarrow>
      px (fst (reset cart st cv p g)) = real (width cv) + 2 * size_p (fst (reset cart st cv p g))) \<and>
   (px p > real (width cv) \<longrightarrow>
      px (fst (reset cart st cv p g)) = 0 - 2 * size_p (fst (reset cart st cv p g))) \<and>
   (py p < 0 \<longrightarrow>
      py (fst (reset cart st cv p g)) = real (height cv) + 2 * size_p (fst (reset cart st cv p g))) \<and>
   (py p > real (height cv) \<longrightarrow>
      py (fst (reset cart st cv p g)) = 0 - 2 * size_p (fst (reset cart st cv p g))) \<and>
   (px p < 0 - size_p p * 3 \<and> 0 - size_p p * 3 \<le> py p \<and> py p < 0 \<longrightarrow>
      isOffCanvas cv p \<and>
      px (fst (reset cart st cv p g)) = real (width cv) + 2 * size_p (fst (reset cart st cv p g)) \<and>
      py (fst (reset cart st cv p g)) = real (height cv) + 2 * size_p (fst (reset cart st cv p g)) \<and>
      (0 \<le> size_p (fst (reset cart st cv p g)) \<longrightarrow> py (fst (reset cart st cv p g)) \<noteq> py p))"
  by (auto simp add: reset_fields isOffCanvas_def Let_def)

theorem reset_axis_snaps_witness:
  "px demo_particle < 0 - size_p demo_particle * 3 \<and>
   0 - size_p demo_particle * 3 \<le> py demo_particle \<and> py demo_particle < 0 \<and>
   isOffCanvas demo_canvas demo_particle \<and>
   0 \<le> size_p (fst (reset cartesian0 demo_settings demo_canvas demo_particle (sconst 0))) \<and>
   px (fst (reset cartesian0 demo_settings demo_canvas demo_particle (sconst 0))) = 114 \<and>
   py (fst (reset cartesian0 demo_settings demo_canvas demo_particle (sconst 0))) = 64 \<and>
   py (fst (reset cartesian0 demo_settings demo_canvas demo_particle (sconst 0))) \<noteq> py demo_particle"
proof -
  note s = demo_reset_size
  show ?thesis
    using reset_axis_snaps [of demo_particle cartesian0 demo_settings demo_canvas "sconst 0"]
    by (simp add: s demo_particle_def demo_canvas_def)
qed

section \<open>The alpha delta\<close>

lemma getAlphaDelta_value:
  "getAlphaDelta st g =
     (if shd (stl g) < 1 / 2 then - (1 + shd g * alphaVariance st)
      else 1 + shd g * alphaVariance st, stl (stl g))"
  by (simp add: getAlphaDelta_def random_h_def roll_def Let_def)

text \<open>
  C5, as stated, fails: the magnitude is drawn from \<open>random(1, variance + 1)\<close>, so it
  can exceed \<open>alphaVariance\<close>. With \<open>alphaVariance = 1\<close>, a first draw of \<open>1/2\<close> and a
  second of \<open>3/4\<close> the delta is \<open>3/2\<close>.
\<close>

theorem getAlphaDelta_exceeds_variance_counterexample:
  "alphaVariance demo_settings = 1 \<and>
   fst (getAlphaDelta demo_settings (1 / 2 ## sconst (3 / 4))) = 3 / 2 \<and>
   alphaVariance demo_settings < \<bar>fst (getAlphaDelta demo_settings (1 / 2 ## sconst (3 / 4)))\<bar>"
  by (simp add: getAlphaDelta_def random_h_def roll_def Let_def demo_settings_def)

text \<open>
  C5, amended: for \<open>alphaVariance \<ge> 0\<close> and a first draw \<open>u\<close> in \<open>[0, 1)\<close> the magnitude of
  the alpha delta is \<open>1 + u \<times> alphaVariance\<close>, uniform in the draw over the interval from
  \<open>1\<close> to \<open>alphaVariance + 1\<close>: at least \<open>1\<close>, at most \<open>alphaVariance + 1\<close>, and below it
  when \<open>alphaVariance > 0\<close>. The delta is negative exactly when the second draw is below
  \<open>1/2\<close>.
\<close>

theorem getAlphaDelta_range:
  assumes "0 \<le> alphaVariance st" and "0 \<le> shd g" and "shd g < 1"
  shows "\<bar>fst (getAlphaDelta st g)\<bar> = 1 + shd g * alphaVariance st \<and>
         1 \<le> \<bar>fst (getAlphaDelta st g)\<bar> \<and>
         \<bar>fst (getAlphaDelta st g)\<bar> \<le> alphaVariance st + 1 \<and>
         (0 < alphaVariance st \<longrightarrow> \<bar>fst (getAlphaDelta st g)\<bar> < alphaVariance st + 1) \<and>
         (fst (getAlphaDelta st g) < 0) = (shd (stl g) < 1 / 2)"
proof -
  have nn: "0 \<le> shd g * alphaVariance st"
    using assms(1,2) by simp
  have le: "shd g * alphaVariance st \<le> alphaVariance st"
    using assms by (simp add: mult_left_le_one_le)
  have lt: "0 < alphaVariance st \<Longrightarrow> shd g * alphaVariance st < alphaVariance st"
    using assms(3) by simp
  have m: "\<bar>fst (getAlphaDelta st g)\<bar> = 1 + shd g * alphaVariance st"
    using nn by (simp add: getAlphaDelta_value)
  have sg: "(fst (getAlphaDelta st g) < 0) = (shd (stl g) < 1 / 2)"
    using nn by (auto simp add: getAlphaDelta_value)
  show ?thesis
    unfolding m using nn le lt sg by auto
qed

theorem getAlphaDelta_range_witness:
  "0 \<le> alphaVariance demo_settings \<and> 0 < alphaVariance demo_settings \<and>
   (0::real) \<le> shd (1 / 2 ## sconst (1 / 4)) \<and> shd (1 / 2 ## sconst (1 / 4)) < (1::real) \<and>
   fst (getAlphaDelta demo_settings (1 / 2 ## sconst (1 / 4))) = - (3 / 2) \<and>
   \<bar>fst (getAlphaDelta demo_settings (1 / 2 ## sconst (1 / 4)))\<bar> < alphaVariance demo_settings + 1"
proof -
  have h: "0 \<le> alphaVariance demo_settings" "(0::real) \<le> shd (1 / 2 ## sconst (1 / 4))"
      "shd (1 / 2 ## sconst (1 / 4)) < (1::real)"
    by (simp_all add: demo_settings_def)
  have v: "fst (getAlphaDelta demo_settings (1 / 2 ## sconst (1 / 4))) = - (3 / 2)"
    by (simp add: getAlphaDelta_def random_h_def roll_def Let_def demo_settings_def)
  show ?thesis
    using getAlphaDelta_range [OF h] h v by (simp add: demo_settings_def)
qed

section \<open>The variance term of the velocity\<close>

text \<open>
  C6, as stated, fails in its last part: with a configured speed of \<open>0\<close> the variance
  term is computed from \<open>10\<close>, not from \<open>0\<close>. With \<open>xVariance = 1\<close> and a draw of \<open>3/4\<close>,
  \<open>random(-1, 1)\<close> is \<open>1/2\<close> and the term, and with it \<open>dx\<close>, is \<open>1/20\<close>.
\<close>

theorem variance_term_at_speed_0_counterexample:
  "speed demo_settings = 0 \<and> 0 < xVariance demo_settings \<and>
   fst (getDeltaVariance demo_settings (xVariance demo_settings) (sconst (3 / 4))) = 1 / 20 \<and>
   fst (getDeltaX cartesian0 demo_settings demo_particle (sconst (3 / 4))) = 1 / 20"
  by (simp add: getDeltaX_def getDelta_def getDeltaVariance_def random_h_def Let_def
      demo_settings_def)

text \<open>
  C6, amended: on each axis on its own, when the variance \<open>v\<close> of that axis is above
  \<open>0\<close>, the variance term is \<open>random(-v, v) \<times> s / 100\<close>, where \<open>s\<close> is the configured speed
  when that is not \<open>0\<close> and \<open>10\<close> when it is, and the velocity component is the component
  of the direction times the base delta, plus that term; so with a configured speed of
  \<open>0\<close> the component is \<open>random(-v, v) / 10\<close>.
\<close>

theorem velocity_variance_term:
  "(0 < v \<longrightarrow>
      fst (getDeltaVariance st v g) =
        fst (random_h (- v) v g) * (if speed st = 0 then 10 else speed st) / 100) \<and>
   (0 < xVariance st \<longrightarrow>
      fst (getDeltaX cart st p g) =
        fst (cart (direction st)) * getDelta st p +
        fst (random_h (- xVariance st) (xVariance st) g) *
          (if speed st = 0 then 10 else speed st) / 100 \<and>
      (speed st = 0 \<longrightarrow>
         fst (getDeltaX cart st p g) = fst (random_h (- xVariance st) (xVariance st) g) / 10)) \<and>
   (0 < yVariance st \<longrightarrow>
      fst (getDeltaY cart st p g) =
        snd (cart (direction st)) * getDelta st p +
        fst (random_h (- yVariance st) (yVariance st) g) *
          (if speed st = 0 then 10 else speed st) / 100 \<and>
      (speed st = 0 \<longrightarrow>
         fst (getDeltaY cart st p g) = fst (random_h (- yVariance st) (yVariance st) g) / 10))"
  by (simp add: getDeltaX_def getDeltaY_def getDeltaVariance_def getDelta_def Let_def
      case_prod_beta)

text \<open>
  The theorem at settings with a variance on one axis only. With a variance on \<open>x\<close>
  alone and a speed of \<open>0\<close>, a draw of \<open>1/4\<close> gives \<open>random(-1, 1) = -1/2\<close> and
  \<open>dx = -1/20\<close>. With a variance on \<open>y\<close> alone, a speed of \<open>20\<close> and the direction \<open>0\<close>,
  which is \<open>(0, -1)\<close>, the base delta is \<open>2\<close> and \<open>dy = -2 - 1/10\<close>, while \<open>dx\<close>, without
  a variance, is \<open>0\<close>.
\<close>

theorem velocity_variance_term_witness:
  "0 < xVariance (demo_settings\<lparr>yVariance := 0\<rparr>) \<and>
   \<not> 0 < yVariance (demo_settings\<lparr>yVariance := 0\<rparr>) \<and>
   speed (demo_settings\<lparr>yVariance := 0\<rparr>) = 0 \<and>
   fst (random_h (- 1) 1 (sconst (1 / 4))) = - (1 / 2) \<and>
   fst (getDeltaVariance (demo_settings\<lparr>yVariance := 0\<rparr>) 1 (sconst (1 / 4))) = - (1 / 20) \<and>
   fst (getDeltaX cartesian0 (demo_settings\<lparr>yVariance := 0\<rparr>) demo_particle
         (sconst (1 / 4))) = - (1 / 20) \<and>
   0 < yVariance (demo_settings\<lparr>xVariance := 0, speed := 20, direction := 0\<rparr>) \<and>
   \<not> 0 < xVariance (demo_settings\<lparr>xVariance := 0, speed := 20, direction := 0\<rparr>) \<and>
   cartesian0 0 = (0, - 1) \<and>
   getDelta (demo_settings\<lparr>xVariance := 0, speed := 20, direction := 0\<rparr>) demo_particle = 2 \<and>
   fst (getDeltaY cartesian0 (demo_settings\<lparr>xVariance := 0, speed := 20, direction := 0\<rparr>)
         demo_particle (sconst (1 / 4))) = - (21 / 10) \<and>
   fst (getDeltaX cartesian0 (demo_settings\<lparr>xVariance := 0, speed := 20, direction := 0\<rparr>)
         demo_particle (sconst (1 / 4))) = 0"
proof -
  have c: "cartesian0 0 = (0, - 1)"
    by (simp add: cartesian0_def radian_def)
  show ?thesis
    using velocity_variance_term [of 1 "demo_settings\<lparr>yVariance := 0\<rparr>" "sconst (1 / 4)"
        cartesian0 demo_particle]
      velocity_variance_term [of 1 "demo_settings\<lparr>xVariance := 0, speed := 20, direction := 0\<rparr>"
        "sconst (1 / 4)" cartesian0 demo_particle]
    by (simp add: c demo_settings_def random_h_def getDelta_def getDeltaX_def
        getDeltaVariance_def Let_def)
qed

section \<open>Construction without a valid parent\<close>

text \<open>
  C7, as stated, fails: without a parent the constructor raises nothing. It completes,
  and what it returns is an object on which no field of a particle was set, after one
  warning on the console.
\<close>

theorem Sparticle_without_parent_counterexample:
  "Sparticle cartesian0 None demo_draws =
     Inr (\<lparr>this = None, warnings = [''Invalid parameters given to Sparticle()'']\<rparr>, demo_draws)"
  by (simp add: Sparticle_def)

text \<open>
  C7, amended: a construction raises an error exactly when a parent is given that
  lacks its canvas or its settings, and the error is a \<open>TypeError\<close>, so that no object
  is returned. A construction returns an object without any field of a particle
  exactly when no parent is given; it then writes the warning
  \<open>Invalid parameters given to Sparticle()\<close> to the console, raises nothing, and draws
  nothing from the random source. With a parent that has both its canvas and its
  settings the construction returns the particle that \<open>init\<close> produces, without a warning.
\<close>

theorem Sparticle_outcomes:
  "(isl (Sparticle cart par g) =
      (\<exists>pa. par = Some pa \<and> (p_canvas pa = None \<or> p_settings pa = None))) \<and>
   (isl (Sparticle cart par g) \<longrightarrow> Sparticle cart par g = Inl TypeError) \<and>
   ((\<exists>c g1. Sparticle cart par g = Inr (c, g1) \<and> this c = None) = (par = None)) \<and>
   (par = None \<longrightarrow>
      Sparticle cart par g =
        Inr (\<lparr>this = None, warnings = [''Invalid parameters given to Sparticle()'']\<rparr>, g)) \<and>
   (\<forall>pa cv st. par = Some pa \<and> p_canvas pa = Some cv \<and> p_settings pa = Some st \<longrightarrow>
      Sparticle cart par g =
        Inr (\<lparr>this = Some (fst (init cart st cv (p_images pa) fresh g)), warnings = []\<rparr>,
             snd (init cart st cv (p_images pa) fresh g)))"
  by (auto simp add: Sparticle_def case_prod_beta split: option.splits)

text \<open>
  The theorem at four parents: none; one without a canvas; one without settings; and
  one with a canvas \<open>100\<close> by \<open>50\<close> and sizes from \<open>5\<close> to \<open>9\<close>, whose particle has the size
  \<open>8\<close>, the alpha \<open>5/8\<close> and the colour \<open>red\<close>.
\<close>

theorem Sparticle_outcomes_witness:
  "Sparticle cartesian0 None demo_draws =
     Inr (\<lparr>this = None, warnings = [''Invalid parameters given to Sparticle()'']\<rparr>, demo_draws) \<and>
   p_canvas (demo_parent\<lparr>p_canvas := None\<rparr>) = None \<and>
   Sparticle cartesian0 (Some (demo_parent\<lparr>p_canvas := None\<rparr>)) demo_draws = Inl TypeError \<and>
   p_settings (demo_parent\<lparr>p_settings := None\<rparr>) = None \<and>
   Sparticle cartesian0 (Some (demo_parent\<lparr>p_settings := None\<rparr>)) demo_draws = Inl TypeError \<and>
   p_canvas demo_parent = Some demo_canvas \<and> p_settings demo_parent = Some wide_settings \<and>
   \<not> isl (Sparticle cartesian0 (Some demo_parent) demo_draws) \<and>
   Sparticle cartesian0 (Some demo_parent) demo_draws =
     Inr (\<lparr>this = Some \<lparr>frame = 0, frameoffset = 90, size_p = 8, da = - (5 / 4),
                         dx = - (1 / 20), dy = - (1 / 20), dd = 0, dr = 0, alpha = 5 / 8,
                         shape_p = Some ''circle'', fillColor = Some ''red'',
                         strokeColor = Some ''red'', px = 15, py = 3, rotation_p = 0,
                         resettingTwinkle = False\<rparr>,
           warnings = []\<rparr>, sconst (1 / 4))"
proof -
  have i: "init cartesian0 wide_settings demo_canvas None fresh demo_draws =
     (\<lparr>frame = 0, frameoffset = 90, size_p = 8, da = - (5 / 4),
       dx = - (1 / 20), dy = - (1 / 20), dd = 0, dr = 0, alpha = 5 / 8,
       shape_p = Some ''circle'', fillColor = Some ''red'',
       strokeColor = Some ''red'', px = 15, py = 3, rotation_p = 0,
       resettingTwinkle = False\<rparr>, sconst (1 / 4))"
    by (simp add: init_def wide_setup case_prod_beta)
      (simp add: fresh_def random_h_def round_h_def getShapeOrImage_def getColor_def
        randomArray_def wide_settings_def demo_settings_def demo_canvas_def)
  show ?thesis
    using Sparticle_outcomes [of cartesian0 None demo_draws]
      Sparticle_outcomes [of cartesian0 "Some (demo_parent\<lparr>p_canvas := None\<rparr>)" demo_draws]
      Sparticle_outcomes [of cartesian0 "Some (demo_parent\<lparr>p_settings := None\<rparr>)" demo_draws]
      Sparticle_outcomes [of cartesian0 "Some demo_parent" demo_draws]
    by (simp add: demo_parent_def i)
qed

section \<open>What \<open>render\<close> leaves on the drawing surface\<close>

lemma renderRotate_keeps:
  "globalAlpha (renderRotate st p c) = globalAlpha c"
  "globalCompositeOperation (renderRotate st p c) = globalCompositeOperation c"
  "drawn (renderRotate st p c) = drawn c"
  by (simp_all add: renderRotate_def translate_def rotate_c_def transform_def Let_def)

text \<open>The outcome of \<open>render\<close> in closed form: the three errors, or the surface it leaves.\<close>

lemma render_cases:
  "render images st p c =
     (case images (key (fillColor p)) of
        None \<Rightarrow> Inl TypeError
      | Some row \<Rightarrow>
          (case row (key (shape_p p)) of
             None \<Rightarrow> Inl TypeError
           | Some bmp \<Rightarrow>
               if width bmp = 0 \<or> height bmp = 0 then Inl InvalidStateError
               else Inr \<lparr>currentTransform = identity,
                         globalAlpha = clamp (alpha p) 0 1,
                         globalCompositeOperation = composition st,
                         drawn = drawn c @
                           (if size_p p = 0 then []
                            else [\<lparr>image = bmp,
                                   source_rect = (0, 0, real (width bmp), real (width bmp)),
                                   dest_rect = (px p / (size_p p / real (width bmp)),
                                                py p / (size_p p / real (width bmp)),
                                                real (width bmp), real (width bmp)),
                                   under_transform =
                                     compose (currentTransform (renderRotate st p c))
                                       (size_p p / real (width bmp), 0, 0,
                                        size_p p / real (width bmp), 0, 0),
                                   under_alpha = clamp (alpha p) 0 1,
                                   under_composite = composition st\<rparr>])\<rparr>))"
  by (simp add: render_def Let_def renderRotate_keeps transform_def setTransform_def
      drawImage_def identity_def split: option.splits)

text \<open>
  C8. Whenever \<open>render\<close> returns, the transform of the surface is the identity, for
  every particle, every settings (rotating or not), every cache of bitmaps and every
  surface state on entry.
\<close>

theorem render_resets_transform:
  assumes "render images st p c = Inr c'"
  shows "currentTransform c' = identity"
  using assms by (auto simp add: render_cases split: option.splits if_splits)

theorem render_resets_transform_witness:
  "render demo_images (demo_settings\<lparr>rotate_s := True\<rparr>) (demo_particle\<lparr>rotation_p := pi\<rparr>)
     demo_context =
     Inr \<lparr>currentTransform = identity, globalAlpha = 1 / 2,
          globalCompositeOperation = ''lighter'',
          drawn = [\<lparr>image = \<lparr>width = 6, height = 6\<rparr>,
                    source_rect = (0, 0, 6, 6), dest_rect = (- 40, - 10, 6, 6),
                    under_transform = (- (1 / 2), 0, 0, - (1 / 2), - 37, - 7),
                    under_alpha = 1 / 2, under_composite = ''lighter''\<rparr>]\<rparr> \<and>
   currentTransform
     \<lparr>currentTransform = identity, globalAlpha = 1 / 2,
      globalCompositeOperation = ''lighter'',
      drawn = [\<lparr>image = \<lparr>width = 6, height = 6\<rparr>,
                source_rect = (0, 0, 6, 6), dest_rect = (- 40, - 10, 6, 6),
                under_transform = (- (1 / 2), 0, 0, - (1 / 2), - 37, - 7),
                under_alpha = 1 / 2, under_composite = ''lighter''\<rparr>]\<rparr> = identity"
proof -
  have r: "render demo_images (demo_settings\<lparr>rotate_s := True\<rparr>) (demo_particle\<lparr>rotation_p := pi\<rparr>)
     demo_context =
     Inr \<lparr>currentTransform = identity, globalAlpha = 1 / 2,
          globalCompositeOperation = ''lighter'',
          drawn = [\<lparr>image = \<lparr>width = 6, height = 6\<rparr>,
                    source_rect = (0, 0, 6, 6), dest_rect = (- 40, - 10, 6, 6),
                    under_transform = (- (1 / 2), 0, 0, - (1 / 2), - 37, - 7),
                    under_alpha = 1 / 2, under_composite = ''lighter''\<rparr>]\<rparr>"
    by (simp add: render_cases demo_images_def demo_settings_def demo_particle_def
        demo_context_def key_def clamp_def renderRotate_def translate_def rotate_c_def
        transform_def identity_def Let_def)
  from render_resets_transform [OF r] r show ?thesis by simp
qed

text \<open>
  C9, as stated, fails: \<open>render\<close> resets the transform only. On a surface with global
  alpha \<open>1\<close> and composite mode \<open>source-over\<close>, rendering a particle of alpha \<open>1/2\<close> under
  the composition \<open>lighter\<close> returns with global alpha \<open>1/2\<close> and composite mode
  \<open>lighter\<close>.
\<close>

theorem render_leaves_alpha_counterexample:
  "globalAlpha demo_context = 1 \<and> globalCompositeOperation demo_context = ''source-over'' \<and>
   render demo_images demo_settings demo_particle demo_context =
     Inr \<lparr>currentTransform = identity, globalAlpha = 1 / 2,
          globalCompositeOperation = ''lighter'',
          drawn = [\<lparr>image = \<lparr>width = 6, height = 6\<rparr>,
                    source_rect = (0, 0, 6, 6), dest_rect = (- 40, - 10, 6, 6),
                    under_transform = (1 / 2, 0, 0, 1 / 2, 0, 0),
                    under_alpha = 1 / 2, under_composite = ''lighter''\<rparr>]\<rparr>"
  by (simp add: render_cases demo_images_def demo_settings_def demo_particle_def
      demo_context_def key_def clamp_def renderRotate_def identity_def)

text \<open>
  C9, amended: a \<open>render\<close> that returns leaves the transform at the identity, the
  global alpha at \<open>clamp(alpha, 0, 1)\<close> of its particle and the composite mode at the
  configured composition; it keeps what was drawn before, and whatever it draws itself
  is drawn under that alpha and that composite mode, whatever the surface held on entry.
\<close>

theorem render_surface_state:
  assumes "render images st p c = Inr c'"
  shows "currentTransform c' = identity \<and>
         globalAlpha c' = clamp (alpha p) 0 1 \<and>
         globalCompositeOperation c' = composition st \<and>
         take (length (drawn c)) (drawn c') = drawn c \<and>
         (\<forall>d \<in> set (drop (length (drawn c)) (drawn c')).
            under_alpha d = clamp (alpha p) 0 1 \<and> under_composite d = composition st)"
  using assms by (auto simp add: render_cases split: option.splits if_splits)

theorem render_surface_state_witness:
  "render demo_images demo_settings (demo_particle\<lparr>alpha := 3\<rparr>)
     (demo_context\<lparr>globalAlpha := 1 / 4\<rparr>) =
     Inr \<lparr>currentTransform = identity, globalAlpha = 1,
          globalCompositeOperation = ''lighter'',
          drawn = [\<lparr>image = \<lparr>width = 6, height = 6\<rparr>,
                    source_rect = (0, 0, 6, 6), dest_rect = (- 40, - 10, 6, 6),
                    under_transform = (1 / 2, 0, 0, 1 / 2, 0, 0),
                    under_alpha = 1, under_composite = ''lighter''\<rparr>]\<rparr> \<and>
   clamp (alpha (demo_particle\<lparr>alpha := 3\<rparr>)) 0 1 = 1 \<and>
   composition demo_settings = ''lighter'' \<and>
   drawn (demo_context\<lparr>globalAlpha := 1 / 4\<rparr>) = []"
proof -
  have r: "render demo_images demo_settings (demo_particle\<lparr>alpha := 3\<rparr>)
     (demo_context\<lparr>globalAlpha := 1 / 4\<rparr>) =
     Inr \<lparr>currentTransform = identity, globalAlpha = 1,
          globalCompositeOperation = ''lighter'',
          drawn = [\<lparr>image = \<lparr>width = 6, height = 6\<rparr>,
                    source_rect = (0, 0, 6, 6), dest_rect = (- 40, - 10, 6, 6),
                    under_transform = (1 / 2, 0, 0, 1 / 2, 0, 0),
                    under_alpha = 1, under_composite = ''lighter''\<rparr>]\<rparr>"
    by (simp add: render_cases demo_images_def demo_settings_def demo_particle_def
        demo_context_def key_def clamp_def renderRotate_def identity_def)
  from render_surface_state [OF r] r show ?thesis
    by (simp add: demo_settings_def demo_particle_def demo_context_def clamp_def)
qed

end
